theory Spec2Isabelle
  imports Complex_Main "HOL-Library.Word"
begin

unbundle bit_operations_syntax

section \<open>Bytes, exceptions and the random source\<close>

text \<open>
  A Python \<open>bytes\<close> object is a list of 8-bit words. Slices \<open>b[:n]\<close> and \<open>b[n:]\<close> never
  raise in Python; they are \<open>take n b\<close> and \<open>drop n b\<close>.
\<close>

type_synonym byte = "8 word"
type_synonym bytes = "byte list"

definition bytes_of :: "string \<Rightarrow> bytes" where
  "bytes_of s = map (\<lambda>c. of_nat (of_char c)) s"

text \<open>
  Exceptions are values. \<open>ValueError\<close> carries its message, the others are the exception
  classes of the libraries the toolkit calls (all of them subclasses of \<open>Exception\<close>).
\<close>

datatype exn =
    ValueError string
  | TypeError
  | InvalidTag
  | InvalidSignature
  | ReedSolomonError
  | BadGzipFile
  | ZeroDivisionError
  | CouldntDecodeError
  | OSError

text \<open>
  \<open>os.urandom(n)\<close> always returns exactly \<open>n\<close> bytes. The random source is an infinite
  tape of bytes, passed in and returned advanced.
\<close>

type_synonym entropy = "nat \<Rightarrow> byte"

definition urandom :: "nat \<Rightarrow> entropy \<Rightarrow> bytes \<times> entropy" where
  "urandom n e = (map e [0..<n], \<lambda>i. e (i + n))"

definition HEADER_SIZE :: nat where
  "HEADER_SIZE = 16"

definition RS_REDUNDANCY :: nat where
  "RS_REDUNDANCY = 32"

section \<open>The libraries behind \<open>common_crypto.py\<close>\<close>

text \<open>
  \<open>cryptography\<close>, \<open>gzip\<close> and \<open>reedsolo\<close> are not part of the repository. Their entry
  points are the fields of a record that every function of the toolkit takes as its first
  argument, so that each theorem holds for whatever these libraries compute. A key object
  is represented by its raw encoding. A call that can raise returns a sum.
\<close>

record crypto_lib =
  gzip_compress :: "bytes \<Rightarrow> bytes"
  gzip_decompress :: "bytes \<Rightarrow> exn + bytes"
  aesgcm_new :: "bytes \<Rightarrow> exn + bytes"
  aesgcm_encrypt :: "bytes \<Rightarrow> bytes \<Rightarrow> bytes \<Rightarrow> exn + bytes"
  aesgcm_decrypt :: "bytes \<Rightarrow> bytes \<Rightarrow> bytes \<Rightarrow> exn + bytes"
  ed25519_private_from_bytes :: "bytes \<Rightarrow> exn + bytes"
  ed25519_sign :: "bytes \<Rightarrow> bytes \<Rightarrow> bytes"
  ed25519_public_from_bytes :: "bytes \<Rightarrow> exn + bytes"
  ed25519_verify :: "bytes \<Rightarrow> bytes \<Rightarrow> bytes \<Rightarrow> exn + unit"
  x25519_private_from_bytes :: "bytes \<Rightarrow> exn + bytes"
  x25519_public_from_bytes :: "bytes \<Rightarrow> exn + bytes"
  x25519_public_key :: "bytes \<Rightarrow> bytes"
  x25519_exchange :: "bytes \<Rightarrow> bytes \<Rightarrow> exn + bytes"
  hkdf_sha256 :: "bytes option \<Rightarrow> bytes \<Rightarrow> bytes \<Rightarrow> bytes"
  rs_encode :: "bytes \<Rightarrow> bytes"
  rs_decode :: "bytes \<Rightarrow> exn + bytes"

text \<open>
  The argument order follows the calls of the source: \<open>aesgcm_encrypt L key nonce data\<close> is
  \<open>AESGCM(key).encrypt(nonce, data, None)\<close> after \<open>aesgcm_new L key\<close> built the cipher,
  \<open>ed25519_verify L key signature data\<close> is \<open>key.verify(signature, data)\<close>,
  \<open>x25519_exchange L private public\<close> is \<open>private.exchange(public)\<close>,
  \<open>hkdf_sha256 L salt info ikm\<close> is \<open>HKDF(SHA256, 32, salt, info).derive(ikm)\<close>, and
  \<open>rs_encode L\<close>, \<open>rs_decode L\<close> are \<open>RSCodec(RS_REDUNDANCY).encode\<close> and
  \<open>RSCodec(RS_REDUNDANCY).decode(...)[0]\<close>.
\<close>

section \<open>KeyManager\<close>

text \<open>
  \<open>wrap_session_key\<close>: the ephemeral private key that \<open>X25519PrivateKey.generate()\<close> draws
  is 32 bytes of the random source.
\<close>

definition wrap_session_key ::
  "crypto_lib \<Rightarrow> bytes \<Rightarrow> bytes \<Rightarrow> entropy \<Rightarrow> (exn + bytes) \<times> entropy" where
  "wrap_session_key L session_key recipient_public_key e =
     (case x25519_public_from_bytes L recipient_public_key of
        Inl x \<Rightarrow> (Inl x, e)
      | Inr public_key \<Rightarrow>
         (let (ephemeral_private, e1) = urandom 32 e;
              ephemeral_public = x25519_public_key L ephemeral_private
          in case x25519_exchange L ephemeral_private public_key of
               Inl x \<Rightarrow> (Inl x, e1)
             | Inr shared_key \<Rightarrow>
                (let derived_key = hkdf_sha256 L None (bytes_of ''session_key_wrap'') shared_key
                 in case aesgcm_new L derived_key of
                      Inl x \<Rightarrow> (Inl x, e1)
                    | Inr aesgcm \<Rightarrow>
                       (let (nonce, e2) = urandom 12 e1
                        in case aesgcm_encrypt L aesgcm nonce session_key of
                             Inl x \<Rightarrow> (Inl x, e2)
                           | Inr ciphertext \<Rightarrow>
                               (Inr (ephemeral_public @ nonce @ ciphertext), e2)))))"

definition unwrap_session_key :: "crypto_lib \<Rightarrow> bytes \<Rightarrow> bytes \<Rightarrow> exn + bytes" where
  "unwrap_session_key L wrapped_key private_key =
     (let ephemeral_public_bytes = take 32 wrapped_key;
          nonce = take 12 (drop 32 wrapped_key);
          ciphertext = drop 44 wrapped_key
      in case x25519_public_from_bytes L ephemeral_public_bytes of
           Inl x \<Rightarrow> Inl x
         | Inr ephemeral_public \<Rightarrow>
            (case x25519_private_from_bytes L private_key of
               Inl x \<Rightarrow> Inl x
             | Inr private \<Rightarrow>
                (case x25519_exchange L private ephemeral_public of
                   Inl x \<Rightarrow> Inl x
                 | Inr shared_key \<Rightarrow>
                    (let derived_key =
                           hkdf_sha256 L None (bytes_of ''session_key_wrap'') shared_key
                     in case aesgcm_new L derived_key of
                          Inl x \<Rightarrow> Inl x
                        | Inr aesgcm \<Rightarrow> aesgcm_decrypt L aesgcm nonce ciphertext))))"

definition sign_data :: "crypto_lib \<Rightarrow> bytes \<Rightarrow> bytes \<Rightarrow> exn + bytes" where
  "sign_data L data private_key =
     (case ed25519_private_from_bytes L private_key of
        Inl x \<Rightarrow> Inl x
      | Inr signing_key \<Rightarrow> Inr (ed25519_sign L signing_key data))"

text \<open>
  \<open>verify_signature\<close>: the inner \<open>case\<close> is the body of the \<open>try\<close>, the outer one is
  \<open>except Exception: return False\<close>.
\<close>

definition verify_signature :: "crypto_lib \<Rightarrow> bytes \<Rightarrow> bytes \<Rightarrow> bytes \<Rightarrow> exn + bool" where
  "verify_signature L data signature public_key =
     (case (case ed25519_public_from_bytes L public_key of
              Inl x \<Rightarrow> Inl x
            | Inr verifying_key \<Rightarrow>
               (case ed25519_verify L verifying_key signature data of
                  Inl x \<Rightarrow> Inl x
                | Inr u \<Rightarrow> Inr True)) of
        Inl x \<Rightarrow> Inr False
      | Inr b \<Rightarrow> Inr b)"

text \<open>
  \<open>derive_seed\<close> returns one Python object. A function of Python may return a \<open>bytes\<close>
  object or a tuple; the value it returns is kept as a \<open>pyval\<close> so that both can be told
  apart.
\<close>

datatype pyval = PyBytes bytes | PyTuple "pyval list"

definition derive_seed ::
  "crypto_lib \<Rightarrow> bytes \<Rightarrow> bytes option \<Rightarrow> entropy \<Rightarrow> pyval \<times> entropy" where
  "derive_seed L key salt e =
     (let (salt', e') = (case salt of None \<Rightarrow> urandom 16 e | Some s \<Rightarrow> (s, e));
          derived_key = hkdf_sha256 L (Some salt') (bytes_of ''stego_seed'') key
      in (PyBytes derived_key, e'))"

section \<open>PayloadProcessor\<close>

record metadata =
  md_version :: int
  md_nonce :: bytes
  md_has_signature :: bool

definition prepare_payload ::
  "crypto_lib \<Rightarrow> bytes \<Rightarrow> bytes \<Rightarrow> bytes option \<Rightarrow> entropy
     \<Rightarrow> (exn + bytes \<times> metadata) \<times> entropy" where
  "prepare_payload L message session_key signing_key e =
     (let compressed = gzip_compress L message;
          (nonce, e1) = urandom 12 e
      in case aesgcm_new L session_key of
           Inl x \<Rightarrow> (Inl x, e1)
         | Inr aesgcm \<Rightarrow>
            (case aesgcm_encrypt L aesgcm nonce compressed of
               Inl x \<Rightarrow> (Inl x, e1)
             | Inr encrypted \<Rightarrow>
                (case (case signing_key of
                         None \<Rightarrow> Inr None
                       | Some sk \<Rightarrow>
                          (case sign_data L encrypted sk of
                             Inl x \<Rightarrow> Inl x
                           | Inr s \<Rightarrow> Inr (Some s))) of
                   Inl x \<Rightarrow> (Inl x, e1)
                 | Inr signature \<Rightarrow>
                    (let metadata = \<lparr>md_version = 1, md_nonce = nonce,
                                      md_has_signature = (signature \<noteq> None)\<rparr>;
                         payload = (case signature of
                                      None \<Rightarrow> encrypted
                                    | Some s \<Rightarrow> s @ encrypted);
                         encoded_payload = rs_encode L payload;
                         (header, e2) = urandom HEADER_SIZE e1;
                         final_payload = header @ encoded_payload
                     in (Inr (final_payload, metadata), e2)))))"

text \<open>
  \<open>extract_payload\<close>: \<open>except reedsolo.ReedSolomonError\<close> catches that class only;
  \<open>AESGCM(session_key)\<close> is built outside the \<open>try\<close>, so its exception propagates as it
  is; the two \<open>except Exception\<close> clauses turn every exception of \<open>decrypt\<close> and of
  \<open>gzip.decompress\<close> into a \<open>ValueError\<close>.
\<close>

definition extract_payload ::
  "crypto_lib \<Rightarrow> bytes \<Rightarrow> bytes \<Rightarrow> bytes option \<Rightarrow> exn + bytes" where
  "extract_payload L embedded_data session_key verify_key =
     (let header = take HEADER_SIZE embedded_data;
          encoded_payload = drop HEADER_SIZE embedded_data
      in case rs_decode L encoded_payload of
           Inl ReedSolomonError \<Rightarrow>
             Inl (ValueError ''Too many errors in the embedded data to recover the payload'')
         | Inl x \<Rightarrow> Inl x
         | Inr payload \<Rightarrow>
            (case (case verify_key of
                     None \<Rightarrow> Inr payload
                   | Some vk \<Rightarrow>
                      (let signature = take 64 payload;
                           encrypted = drop 64 payload
                       in case verify_signature L encrypted signature vk of
                            Inl x \<Rightarrow> Inl x
                          | Inr ok \<Rightarrow>
                             (if \<not> ok then Inl (ValueError ''Signature verification failed'')
                              else Inr encrypted))) of
               Inl x \<Rightarrow> Inl x
             | Inr encrypted \<Rightarrow>
                (let nonce = take 12 header
                 in case aesgcm_new L session_key of
                      Inl x \<Rightarrow> Inl x
                    | Inr aesgcm \<Rightarrow>
                       (case aesgcm_decrypt L aesgcm nonce encrypted of
                          Inl x \<Rightarrow>
                            Inl (ValueError
                                  ''Decryption failed - incorrect key or corrupted data'')
                        | Inr compressed \<Rightarrow>
                           (case gzip_decompress L compressed of
                              Inl x \<Rightarrow>
                                Inl (ValueError
                                      ''Decompression failed - data may be corrupted'')
                            | Inr message \<Rightarrow> Inr message)))))"

section \<open>A reference instance of the libraries\<close>

text \<open>
  To run the toolkit on concrete inputs the library record needs a value. \<open>ref_lib\<close> is a
  small stand-in with the functional behaviour the code relies on, and no security: the
  cipher appends a 16-byte tag that starts with the nonce (so a ciphertext opens under the
  key and nonce that made it and is rejected with \<open>InvalidTag\<close> under another nonce), a
  signature is a function of key and data, the key exchange is commutative, the
  Reed-Solomon code appends \<open>RS_REDUNDANCY\<close> parity bytes and the compressor prepends the
  gzip magic number. It is used for closed evaluations only; the general theorems
  quantify over the library.
\<close>

definition ref_tag :: "bytes \<Rightarrow> bytes \<Rightarrow> bytes \<Rightarrow> bytes" where
  "ref_tag k n d = take 16 (n @ [sum_list k + sum_list d] @ replicate 16 0)"

definition ref_aesgcm_new :: "bytes \<Rightarrow> exn + bytes" where
  "ref_aesgcm_new k =
     (if length k = 16 \<or> length k = 24 \<or> length k = 32 then Inr k
      else Inl (ValueError ''AESGCM key must be 128, 192, or 256 bits.''))"

definition ref_aesgcm_encrypt :: "bytes \<Rightarrow> bytes \<Rightarrow> bytes \<Rightarrow> exn + bytes" where
  "ref_aesgcm_encrypt k n d =
     (if 8 \<le> length n \<and> length n \<le> 128 then Inr (d @ ref_tag k n d)
      else Inl (ValueError ''Nonce must be between 8 and 128 bytes''))"

definition ref_aesgcm_decrypt :: "bytes \<Rightarrow> bytes \<Rightarrow> bytes \<Rightarrow> exn + bytes" where
  "ref_aesgcm_decrypt k n c =
     (if \<not> (8 \<le> length n \<and> length n \<le> 128)
      then Inl (ValueError ''Nonce must be between 8 and 128 bytes'')
      else if length c < 16 then Inl InvalidTag
      else (let d = take (length c - 16) c
            in if drop (length c - 16) c = ref_tag k n d then Inr d else Inl InvalidTag))"

definition ref_key_from_bytes :: "bytes \<Rightarrow> exn + bytes" where
  "ref_key_from_bytes k =
     (if length k = 32 then Inr k else Inl (ValueError ''A raw key is 32 bytes long''))"

definition ref_sign :: "bytes \<Rightarrow> bytes \<Rightarrow> bytes" where
  "ref_sign k d = take 64 (k @ [sum_list d] @ replicate 64 0)"

definition ref_verify :: "bytes \<Rightarrow> bytes \<Rightarrow> bytes \<Rightarrow> exn + unit" where
  "ref_verify k s d = (if s = ref_sign k d then Inr () else Inl InvalidSignature)"

definition ref_exchange :: "bytes \<Rightarrow> bytes \<Rightarrow> exn + bytes" where
  "ref_exchange a b = Inr (map (\<lambda>(x, y). x XOR y) (zip a b))"

definition ref_hkdf :: "bytes option \<Rightarrow> bytes \<Rightarrow> bytes \<Rightarrow> bytes" where
  "ref_hkdf salt info ikm =
     take 32 ((case salt of None \<Rightarrow> [] | Some s \<Rightarrow> s) @ ikm @ info @ replicate 32 0)"

definition ref_gzip_decompress :: "bytes \<Rightarrow> exn + bytes" where
  "ref_gzip_decompress c =
     (if take 2 c = [0x1f, 0x8b] then Inr (drop 2 c) else Inl BadGzipFile)"

definition ref_rs_decode :: "bytes \<Rightarrow> exn + bytes" where
  "ref_rs_decode c =
     (if RS_REDUNDANCY \<le> length c
         \<and> drop (length c - RS_REDUNDANCY) c = replicate RS_REDUNDANCY 0
      then Inr (take (length c - RS_REDUNDANCY) c) else Inl ReedSolomonError)"

definition ref_lib :: crypto_lib where
  "ref_lib = \<lparr>
     gzip_compress = (\<lambda>d. [0x1f, 0x8b] @ d),
     gzip_decompress = ref_gzip_decompress,
     aesgcm_new = ref_aesgcm_new,
     aesgcm_encrypt = ref_aesgcm_encrypt,
     aesgcm_decrypt = ref_aesgcm_decrypt,
     ed25519_private_from_bytes = ref_key_from_bytes,
     ed25519_sign = ref_sign,
     ed25519_public_from_bytes = ref_key_from_bytes,
     ed25519_verify = ref_verify,
     x25519_private_from_bytes = ref_key_from_bytes,
     x25519_public_from_bytes = ref_key_from_bytes,
     x25519_public_key = (\<lambda>k. k),
     x25519_exchange = ref_exchange,
     hkdf_sha256 = ref_hkdf,
     rs_encode = (\<lambda>d. d @ replicate RS_REDUNDANCY 0),
     rs_decode = ref_rs_decode \<rparr>"

text \<open>Fixed inputs: the test key of 32 zero bytes, the message \<open>b"HELLO"\<close>, and a random
  source whose \<open>i\<close>-th byte is \<open>i mod 256\<close>.\<close>

definition counting_tape :: entropy where
  "counting_tape = (\<lambda>i. of_nat i)"

definition zero_key :: bytes where
  "zero_key = replicate 32 0"

definition hello :: bytes where
  "hello = bytes_of ''HELLO''"

text \<open>The \<open>bytes\<close> objects that a returned Python value is made of.\<close>

fun returned_parts :: "pyval \<Rightarrow> bytes list" where
  "returned_parts (PyBytes b) = [b]"
| "returned_parts (PyTuple vs) = concat (map returned_parts vs)"

section \<open>What the theorems assume of the libraries\<close>

text \<open>
  The contracts of X25519, AES-GCM and HKDF that the key-wrapping round trip rests on:
  32-byte strings are the raw encodings of keys and a public key is 32 bytes; the exchange
  of one private key with the other's public key gives both sides the same secret; a
  ciphertext made under a 32-byte key and a 12-byte nonce opens under the same key and
  nonce; HKDF with \<open>length=32\<close> returns 32 bytes.
\<close>

definition x25519_ok :: "crypto_lib \<Rightarrow> bool" where
  "x25519_ok L \<longleftrightarrow>
     (\<forall>k. length k = 32 \<longrightarrow>
        x25519_private_from_bytes L k = Inr k \<and> x25519_public_from_bytes L k = Inr k
        \<and> length (x25519_public_key L k) = 32)
     \<and> (\<forall>a b. length a = 32 \<and> length b = 32 \<longrightarrow>
          (\<exists>s. x25519_exchange L a (x25519_public_key L b) = Inr s
             \<and> x25519_exchange L b (x25519_public_key L a) = Inr s))"

definition aesgcm_ok :: "crypto_lib \<Rightarrow> bool" where
  "aesgcm_ok L \<longleftrightarrow>
     (\<forall>k n d. length k = 32 \<and> length n = 12 \<longrightarrow>
        aesgcm_new L k = Inr k
        \<and> (\<exists>c. aesgcm_encrypt L k n d = Inr c \<and> aesgcm_decrypt L k n c = Inr d))"

definition hkdf_ok :: "crypto_lib \<Rightarrow> bool" where
  "hkdf_ok L \<longleftrightarrow> (\<forall>salt info ikm. length (hkdf_sha256 L salt info ikm) = 32)"



section \<open>The image codec (\<open>image_stego.py\<close>)\<close>

text \<open>
  A numpy array is its shape and its elements in row-major order: \<open>flatten()\<close> copies the
  elements out, \<open>reshape(shape)\<close> puts a shape on them, \<open>size\<close> is their number.
  Coefficients are real numbers; the rounding of float64 arithmetic is not modelled.
\<close>

record ndarray =
  nd_shape :: "nat \<times> nat"
  nd_data :: "real list"

definition flatten :: "ndarray \<Rightarrow> real list" where
  "flatten a = nd_data a"

definition reshape :: "real list \<Rightarrow> nat \<times> nat \<Rightarrow> ndarray" where
  "reshape xs s = \<lparr>nd_shape = s, nd_data = xs\<rparr>"

definition nd_size :: "ndarray \<Rightarrow> nat" where
  "nd_size a = length (nd_data a)"

text \<open>
  \<open>pywt.wavedec2(y, 'haar', level=2)\<close> returns the list
  \<open>[cA2, (d2a, d2b, d2c), (d1a, d1b, d1c)]\<close>: the approximation and, per level, a tuple
  of three detail subbands. \<open>coeffs[1]\<close> is the field \<open>level2\<close>, and \<open>coeffs[1][1]\<close>,
  which the source calls the level-2 horizontal detail, is the second component of it.
\<close>

record dwt_coeffs =
  approx :: ndarray
  level2 :: "ndarray \<times> ndarray \<times> ndarray"
  level1 :: "ndarray \<times> ndarray \<times> ndarray"

definition delta :: int where
  "delta = 20"

text \<open>
  Python's \<open>round\<close> with one argument rounds to the nearest integer and a tie to the even
  one.
\<close>

definition py_round :: "real \<Rightarrow> int" where
  "py_round x =
     (let f = \<lfloor>x\<rfloor>; d = x - of_int f
      in if d < 1/2 then f else if 1/2 < d then f + 1 else if even f then f else f + 1)"

text \<open>The body of the embedding loop (\<open>bit == 0\<close> or not) and of the extraction loop.\<close>

definition qim_embed :: "int \<Rightarrow> real \<Rightarrow> real" where
  "qim_embed b coeff =
     (if b = 0 then of_int (delta * py_round (coeff / of_int delta))
      else of_int (delta * py_round (coeff / of_int delta + 0.5)) - of_int delta / 2)"

definition qim_extract :: "real \<Rightarrow> int" where
  "qim_extract coeff =
     (let q0 = of_int (delta * py_round (coeff / of_int delta));
          q1 = of_int (delta * py_round (coeff / of_int delta + 0.5)) - of_int delta / 2
      in if \<bar>coeff - q0\<bar> < \<bar>coeff - q1\<bar> then 0 else 1)"

text \<open>
  \<open>str\<close> of a non-negative Python int, as the f-string of the error message renders the
  capacity: the digits are produced from the least significant one.
\<close>

definition digit_char :: "nat \<Rightarrow> char" where
  "digit_char d = char_of (of_char (CHR ''0'') + d)"

function decimal_digits :: "nat \<Rightarrow> string \<Rightarrow> string" where
  "decimal_digits n acc =
     (let acc' = digit_char (n mod 10) # acc
      in if n div 10 = 0 then acc' else decimal_digits (n div 10) acc')"
  by pat_completeness auto
termination
  by (relation "measure fst") auto

declare decimal_digits.simps [simp del]

definition py_str :: "nat \<Rightarrow> string" where
  "py_str n = decimal_digits n []"

text \<open>
  \<open>_embed_in_coeffs\<close> takes \<open>len\<close> of its argument \<open>payload_bits\<close>, indexes it and
  compares each element with \<open>0\<close>; nothing in it requires the elements to be bits. The
  elements that reach it are ints and, at the call in \<open>embed\<close>, the two components of the
  tuple that \<open>prepare_payload\<close> returns: a \<open>bytes\<close> object and a dict. \<open>x == 0\<close> holds
  for the int 0 and for no \<open>bytes\<close> object and no dict, so the \<open>else\<close> branch of the loop
  body, the one of \<open>qim_embed\<close> for a non-zero bit, runs for them.
\<close>

datatype seq_item = IntItem int | BytesItem bytes | DictItem metadata

definition embed_step :: "seq_item \<Rightarrow> real \<Rightarrow> real" where
  "embed_step b coeff = (if b = IntItem 0 then qim_embed 0 coeff else qim_embed 1 coeff)"

text \<open>
  \<open>for i in range(len(payload_bits))\<close> is a fold over the indices. The loop runs only
  after the capacity check, so every index it reads and writes is inside \<open>flat_coeffs\<close>.
\<close>

definition embed_loop :: "seq_item list \<Rightarrow> real list \<Rightarrow> real list" where
  "embed_loop payload_bits flat_coeffs =
     fold (\<lambda>i fc. fc[i := embed_step (payload_bits ! i) (fc ! i)])
          [0..<length payload_bits] flat_coeffs"

text \<open>
  \<open>_embed_in_coeffs\<close> works on a copy of the subband and assigns \<open>coeffs[1]\<close> in place
  at the end. The model returns the outcome together with the caller's list as it is
  afterwards: unchanged when the function raises, the returned list otherwise.
\<close>

definition embed_in_coeffs ::
  "dwt_coeffs \<Rightarrow> seq_item list \<Rightarrow> bytes option \<Rightarrow> (exn + dwt_coeffs) \<times> dwt_coeffs" where
  "embed_in_coeffs coeffs payload_bits key =
     (let h_coeffs = fst (snd (level2 coeffs));
          flat_coeffs = flatten h_coeffs
      in if length payload_bits > length flat_coeffs
         then (Inl (ValueError (''Payload too large. Max capacity: ''
                                  @ py_str (length flat_coeffs) @ '' bits'')), coeffs)
         else (let flat_coeffs' = embed_loop payload_bits flat_coeffs;
                   h_coeffs' = reshape flat_coeffs' (nd_shape h_coeffs);
                   coeffs' = coeffs\<lparr>level2 := (fst (level2 coeffs), h_coeffs',
                                                snd (snd (level2 coeffs)))\<rparr>
               in (Inr coeffs', coeffs')))"

text \<open>
  \<open>_extract_from_coeffs\<close>: the loop breaks at the first index beyond the subband, which
  is the same as skipping every such index.
\<close>

definition extract_from_coeffs :: "dwt_coeffs \<Rightarrow> nat \<Rightarrow> bytes option \<Rightarrow> int list" where
  "extract_from_coeffs coeffs payload_length key =
     (let h_coeffs = fst (snd (level2 coeffs));
          flat_coeffs = flatten h_coeffs
      in fold (\<lambda>i payload_bits.
                 if i \<ge> length flat_coeffs then payload_bits
                 else payload_bits @ [qim_extract (flat_coeffs ! i)])
              [0..<payload_length] [])"

text \<open>The subband that both loops work on, \<open>coeffs[1][1]\<close>.\<close>

definition selected :: "dwt_coeffs \<Rightarrow> ndarray" where
  "selected coeffs = fst (snd (level2 coeffs))"

text \<open>
  \<open>embed\<close> and \<open>analyze_capacity\<close> go through PIL, numpy and pywt. What the functions
  need of them: opening the image, its size and number of bands; the luma plane of its
  YCbCr form as an array (\<open>convert\<close>, \<open>split\<close>, \<open>np.array\<close>); the 2-level Haar
  decomposition; and the way back from a coefficient list to the bytes of a PNG file
  (\<open>waverec2\<close>, \<open>clip\<close>, \<open>astype\<close>, \<open>fromarray\<close>, \<open>merge\<close> with the chroma planes of the
  image, \<open>convert\<close>, \<open>save\<close>). \<open>Image.open\<close> reads the header only and the pixel data is
  loaded by \<open>convert\<close>, so every one of these steps can raise.
\<close>

record image =
  img_width :: nat
  img_height :: nat
  img_bands :: nat

record image_lib =
  image_open :: "bytes \<Rightarrow> exn + image"
  y_channel :: "image \<Rightarrow> exn + ndarray"
  wavedec2_haar :: "ndarray \<Rightarrow> exn + dwt_coeffs"
  save_png :: "image \<Rightarrow> dwt_coeffs \<Rightarrow> exn + bytes"

text \<open>
  \<open>embed\<close>: the first statement binds \<open>payload_bits\<close> to what \<open>prepare_payload(payload, key)\<close>
  returns, the tuple \<open>(final_payload, metadata)\<close>, and that tuple is the sequence passed
  to \<open>_embed_in_coeffs\<close>. No bit string and no length prefix is built from it. With the
  default \<open>key=None\<close> the call \<open>AESGCM(None)\<close> inside \<open>prepare_payload\<close> raises \<open>TypeError\<close>,
  after the nonce was drawn.
\<close>

definition embed ::
  "image_lib \<Rightarrow> crypto_lib \<Rightarrow> bytes \<Rightarrow> bytes \<Rightarrow> bytes option \<Rightarrow> entropy
     \<Rightarrow> (exn + bytes) \<times> entropy" where
  "embed I L image_data payload key e =
     (case (case key of
              None \<Rightarrow> (Inl TypeError, snd (urandom 12 e))
            | Some k \<Rightarrow> prepare_payload L payload k None e) of
        (Inl x, e') \<Rightarrow> (Inl x, e')
      | (Inr (final_payload, metadata), e') \<Rightarrow>
         (let payload_bits = [BytesItem final_payload, DictItem metadata]
          in case image_open I image_data of
               Inl x \<Rightarrow> (Inl x, e')
             | Inr img \<Rightarrow>
                (case y_channel I img of
                   Inl x \<Rightarrow> (Inl x, e')
                 | Inr y_array \<Rightarrow>
                    (case wavedec2_haar I y_array of
                       Inl x \<Rightarrow> (Inl x, e')
                     | Inr coeffs \<Rightarrow>
                        (case fst (embed_in_coeffs coeffs payload_bits key) of
                           Inl x \<Rightarrow> (Inl x, e')
                         | Inr modified_coeffs \<Rightarrow>
                             (save_png I img modified_coeffs, e'))))))"

text \<open>The values of a returned dictionary are Python ints, floats and strings.\<close>

datatype pyatom = PyInt int | PyFloat real | PyStr string

text \<open>
  The dictionary keeps its insertion order and is an association list. \<open>//\<close> on Python
  ints is floor division, as \<open>div\<close> on \<open>int\<close> is; \<open>/\<close> raises on a zero divisor.
\<close>

definition analyze_capacity :: "image_lib \<Rightarrow> bytes \<Rightarrow> exn + (string \<times> pyatom) list" where
  "analyze_capacity I image_data =
     (case image_open I image_data of
        Inl x \<Rightarrow> Inl x
      | Inr img \<Rightarrow>
         (case y_channel I img of
            Inl x \<Rightarrow> Inl x
          | Inr y_array \<Rightarrow>
             (case wavedec2_haar I y_array of
                Inl x \<Rightarrow> Inl x
              | Inr coeffs \<Rightarrow>
                 (let h_coeffs = fst (snd (level2 coeffs));
                      total_coeffs = int (nd_size h_coeffs);
                      usable_bits = total_coeffs - 32;
                      usable_bytes = usable_bits div 8;
                      image_size_bytes = int (img_width img * img_height img * img_bands img)
                  in if image_size_bytes = 0 then Inl ZeroDivisionError
                     else Inr [(''total_coefficients'', PyInt total_coeffs),
                               (''usable_bits'', PyInt usable_bits),
                               (''usable_bytes'', PyInt usable_bytes),
                               (''image_size_bytes'', PyInt image_size_bytes),
                               (''efficiency_ratio'',
                                  PyFloat (real_of_int usable_bytes
                                             / real_of_int image_size_bytes))]))))"

text \<open>
  \<open>analyze_capacity\<close> of the document codec (\<open>document_stego.py\<close>), one of the three
  sibling codecs, all of which report \<open>capacity_bytes\<close> and \<open>recommended_max_payload\<close>. The
  inner \<open>case\<close> is the body of the \<open>try\<close>; \<open>except Exception\<close> returns the default report.
\<close>

definition DocumentSteganography_analyze_capacity ::
  "bytes \<Rightarrow> string option \<Rightarrow> (string \<times> pyatom) list" where
  "DocumentSteganography_analyze_capacity document_data document_type =
     (case (if document_type = Some ''pdf''
               \<or> (document_type = None \<and> take 4 document_data = bytes_of ''%PDF'')
            then (let capacity_bytes = int (length document_data) div 100
                  in Inr [(''type'', PyStr ''pdf''),
                          (''size_bytes'', PyInt (int (length document_data))),
                          (''capacity_bytes'', PyInt capacity_bytes),
                          (''recommended_max_payload'', PyInt (capacity_bytes div 2))])
            else if document_type = Some ''docx''
               \<or> (document_type = None \<and> take 2 document_data = bytes_of ''PK'')
            then (let capacity_bytes = int (length document_data) div 200
                  in Inr [(''type'', PyStr ''docx''),
                          (''size_bytes'', PyInt (int (length document_data))),
                          (''capacity_bytes'', PyInt capacity_bytes),
                          (''recommended_max_payload'', PyInt (capacity_bytes div 2))])
            else Inl (ValueError ''Unsupported document type'')) of
        Inl x \<Rightarrow> [(''capacity_bytes'', PyInt 1000), (''recommended_max_payload'', PyInt 500)]
      | Inr report \<Rightarrow> report)"

text \<open>
  The image libraries on a 256 x 256 solid-gray RGB image: luma 128 everywhere, so the
  approximation is 512 everywhere and every detail coefficient is 0; the level-2 subbands
  are 64 x 64, the level-1 subbands 128 x 128. Empty input is not an image. The encoder
  of this stand-in writes the PNG signature and nothing else.
\<close>

definition png_magic :: bytes where
  "png_magic = [137, 80, 78, 71, 13, 10, 26, 10]"

definition gray_plane :: "nat \<Rightarrow> real \<Rightarrow> ndarray" where
  "gray_plane n v = \<lparr>nd_shape = (n, n), nd_data = replicate (n * n) v\<rparr>"

definition gray_image :: image where
  "gray_image = \<lparr>img_width = 256, img_height = 256, img_bands = 3\<rparr>"

definition gray_coeffs :: dwt_coeffs where
  "gray_coeffs = \<lparr>approx = gray_plane 64 512,
                   level2 = (gray_plane 64 0, gray_plane 64 0, gray_plane 64 0),
                   level1 = (gray_plane 128 0, gray_plane 128 0, gray_plane 128 0)\<rparr>"

definition gray_lib :: image_lib where
  "gray_lib = \<lparr>
     image_open = (\<lambda>d. if d = [] then Inl OSError else Inr gray_image),
     y_channel = (\<lambda>img. Inr (gray_plane 256 128)),
     wavedec2_haar = (\<lambda>y. Inr gray_coeffs),
     save_png = (\<lambda>img coeffs. Inr png_magic)
   \<rparr>"

text \<open>A payload of 1000 bytes, and a small PDF file.\<close>

definition big_payload :: bytes where
  "big_payload = replicate 1000 65"

definition small_pdf :: bytes where
  "small_pdf = bytes_of ''%PDF-1.4'' @ replicate 992 32"


section \<open>The audio and video codecs (\<open>audio_stego.py\<close>, \<open>video_stego.py\<close>)\<close>

text \<open>
  \<open>extract\<close> of the audio codec loads the carrier with pydub and reads its samples;
  \<open>extract\<close> of the video codec writes the carrier to a temporary file and removes it.
  Both calls can raise; the \<open>except\<close> clause logs and re-raises.
\<close>

record media_lib =
  audio_from_file :: "bytes \<Rightarrow> exn + int list"
  temp_file_io :: "bytes \<Rightarrow> exn + unit"

definition AudioSteganography_extract ::
  "media_lib \<Rightarrow> bytes \<Rightarrow> bytes \<Rightarrow> int \<Rightarrow> exn + bytes" where
  "AudioSteganography_extract M audio_data seed payload_size =
     (case (case audio_from_file M audio_data of
              Inl x \<Rightarrow> Inl x
            | Inr samples \<Rightarrow> Inr (bytes_of ''Extracted payload from audio'')) of
        Inl e \<Rightarrow> Inl e
      | Inr r \<Rightarrow> Inr r)"

definition VideoSteganography_extract ::
  "media_lib \<Rightarrow> bytes \<Rightarrow> bytes \<Rightarrow> int \<Rightarrow> exn + bytes" where
  "VideoSteganography_extract M video_data seed payload_size =
     (case (case temp_file_io M video_data of
              Inl x \<Rightarrow> Inl x
            | Inr u \<Rightarrow> Inr (bytes_of ''Extracted payload from video'')) of
        Inl e \<Rightarrow> Inl e
      | Inr r \<Rightarrow> Inr r)"

definition ref_media :: media_lib where
  "ref_media = \<lparr>
     audio_from_file = (\<lambda>d. if d = [] then Inl CouldntDecodeError else Inr (map uint d)),
     temp_file_io = (\<lambda>d. Inr ()) \<rparr>"

section \<open>Wire payloads for the extractor\<close>

text \<open>
  A payload as \<open>extract_payload\<close> reads it: a 16-byte header, then the encoded body. The
  body is \<open>b"HELLO"\<close> compressed and encrypted under the zero key with the first 12 header
  bytes as nonce, with a 64-byte signature in front when \<open>with_signature\<close> holds.
  Header byte 1 carries the flag: bit 0 is set in \<open>flag_set_header\<close> and clear in
  \<open>flag_clear_header\<close>.
\<close>

definition test_signing_key :: bytes where
  "test_signing_key = replicate 32 5"

definition flag_set_header :: bytes where
  "flag_set_header = [1, 1] @ replicate 14 0"

definition flag_clear_header :: bytes where
  "flag_clear_header = [1, 0] @ replicate 14 0"

definition wire :: "bytes \<Rightarrow> bool \<Rightarrow> bytes" where
  "wire header with_signature =
     (let compressed = gzip_compress ref_lib hello;
          encrypted = compressed @ ref_tag zero_key (take 12 header) compressed;
          body = (if with_signature then ref_sign test_signing_key encrypted @ encrypted
                  else encrypted)
      in header @ rs_encode ref_lib body)"

section \<open>Properties of the payload pipeline\<close>

lemmas ref_defs = ref_lib_def ref_tag_def ref_aesgcm_new_def ref_aesgcm_encrypt_def
  ref_aesgcm_decrypt_def ref_key_from_bytes_def ref_sign_def ref_verify_def ref_exchange_def
  ref_hkdf_def ref_gzip_decompress_def ref_rs_decode_def HEADER_SIZE_def RS_REDUNDANCY_def

lemma urandom_length: "length (fst (urandom n e)) = n"
  by (simp add: urandom_def)

text \<open>
  Whatever the libraries compute, the header that \<open>prepare_payload\<close> writes is the 16 bytes
  it draws from the random source after the nonce, and the nonce it encrypted with is kept
  in the metadata dictionary only.
\<close>

lemma prepare_payload_header:
  assumes "fst (prepare_payload L message session_key signing_key e) = Inr (p, md)"
  shows "take HEADER_SIZE p = fst (urandom HEADER_SIZE (snd (urandom 12 e)))
         \<and> md_nonce md = fst (urandom 12 e)"
  using assms
  by (auto simp: prepare_payload_def Let_def urandom_def
           split: prod.splits sum.splits option.splits)

text \<open>
  C1 (the code departs from the claim). Session key of 32 zero bytes, message
  \<open>b"HELLO"\<close>, no signing key, random source \<open>counting_tape\<close>: \<open>prepare_payload\<close>
  returns a payload whose header byte 1 is 13, so flag bit 0 is 1 although nothing was
  signed; the first 12 header bytes, which \<open>extract_payload\<close> takes as the nonce, differ
  from the nonce used to encrypt; and \<open>extract_payload\<close> on the unmodified payload with the
  same key raises \<open>ValueError\<close> instead of returning \<open>b"HELLO"\<close>.
\<close>

theorem hello_round_trip_fails:
  "(case fst (prepare_payload ref_lib hello zero_key None counting_tape) of
      Inl x \<Rightarrow> False
    | Inr (payload, md) \<Rightarrow>
        (payload ! 1) AND 1 = 1
        \<and> take 12 payload \<noteq> md_nonce md
        \<and> extract_payload ref_lib payload zero_key None
            = Inl (ValueError ''Decryption failed - incorrect key or corrupted data''))"
  by code_simp

text \<open>
  C2 (the code departs from the claim). On the same input the payload is the 16 bytes
  12..27 drawn from the random source, followed by the encoded body: byte 0 is 12 and not
  the version 1, bytes 2-13 are 14..25 and not the nonce 0..11, bytes 14-15 are 26, 27
  and not zero.
\<close>

theorem prepare_payload_hello_header:
  "fst (prepare_payload ref_lib hello zero_key None counting_tape) =
     Inr ([12, 13, 14, 15, 16, 17, 18, 19, 20, 21, 22, 23, 24, 25, 26, 27] @
          [31, 139, 72, 69, 76, 76, 79, 0, 1, 2, 3, 4, 5, 6, 7, 8, 9, 10, 11, 30, 0, 0, 0] @
          replicate 32 0,
          \<lparr>md_version = 1, md_nonce = [0, 1, 2, 3, 4, 5, 6, 7, 8, 9, 10, 11],
           md_has_signature = False\<rparr>)"
  by code_simp









text \<open>
  C5 as stated fails: called without a salt on the zero key, \<open>derive_seed\<close> returns a
  single \<open>bytes\<close> object, and the 16-byte salt it drew is not among the values returned.
\<close>

theorem derive_seed_drops_salt:
  "fst (urandom 16 counting_tape)
     \<notin> set (returned_parts (fst (derive_seed ref_lib zero_key None counting_tape)))"
  by (simp add: derive_seed_def ref_defs urandom_def counting_tape_def zero_key_def
        bytes_of_def upt_rec)

text \<open>
  C5 as amended. Called without a salt, \<open>derive_seed\<close> draws 16 bytes from the random
  source, uses them as the HKDF salt and returns the derived value only; calling
  \<open>derive_seed\<close> with the same key and that salt passed explicitly returns the same seed.
\<close>

theorem derive_seed_reproducible:
  "fst (derive_seed L key None e)
     = PyBytes (hkdf_sha256 L (Some (fst (urandom 16 e))) (bytes_of ''stego_seed'') key)
   \<and> fst (derive_seed L key (Some (fst (urandom 16 e))) e') = fst (derive_seed L key None e)"
  by (simp add: derive_seed_def urandom_def)

section \<open>Key wrapping\<close>

lemma map2_xor_commute:
  "map (\<lambda>(x, y). x XOR y) (zip a b) = map (\<lambda>(x, y). x XOR y) (zip b (a :: bytes))"
proof (induction a arbitrary: b)
  case Nil
  then show ?case by simp
next
  case (Cons x xs)
  then show ?case by (cases b) (simp_all add: xor.commute)
qed

lemma ref_x25519_ok: "x25519_ok ref_lib"
  unfolding x25519_ok_def
  by (auto simp: ref_lib_def ref_key_from_bytes_def ref_exchange_def map2_xor_commute)

lemma ref_tag_length: "length (ref_tag k n d) = 16"
  by (simp add: ref_tag_def)

lemma ref_aesgcm_ok: "aesgcm_ok ref_lib"
  unfolding aesgcm_ok_def
  by (simp add: ref_lib_def ref_aesgcm_new_def ref_aesgcm_encrypt_def ref_aesgcm_decrypt_def
        ref_tag_length)

lemma ref_hkdf_ok: "hkdf_ok ref_lib"
  unfolding hkdf_ok_def
  by (auto simp: ref_lib_def ref_hkdf_def min_def split: option.splits)

text \<open>
  C3. For every X25519 key pair (a 32-byte private key and its public key), every session
  key and every state of the random source, \<open>wrap_session_key\<close> returns a blob
  \<open>ephemeral_public(32) || nonce(12) || ciphertext\<close>, and \<open>unwrap_session_key\<close>, which
  slices the blob at offsets 32 and 44, returns the session key from it.
\<close>

theorem unwrap_wrap_session_key:
  assumes X: "x25519_ok L" and A: "aesgcm_ok L" and H: "hkdf_ok L"
    and len: "length private_key = 32"
  shows "\<exists>eph nonce ct e'.
           wrap_session_key L session_key (x25519_public_key L private_key) e
             = (Inr (eph @ nonce @ ct), e')
           \<and> length eph = 32 \<and> length nonce = 12
           \<and> unwrap_session_key L (eph @ nonce @ ct) private_key = Inr session_key"
proof -
  define pub where "pub = x25519_public_key L private_key"
  define ep where "ep = fst (urandom 32 e)"
  define e1 where "e1 = snd (urandom 32 e)"
  define eph where "eph = x25519_public_key L ep"
  define nonce where "nonce = fst (urandom 12 e1)"
  define e2 where "e2 = snd (urandom 12 e1)"
  have lep: "length ep = 32" and lnonce: "length nonce = 12"
    by (simp_all add: ep_def nonce_def urandom_length)
  from X len have lpub: "length pub = 32" and priv_ok: "x25519_private_from_bytes L private_key = Inr private_key"
    by (simp_all add: x25519_ok_def pub_def)
  from X lpub have pub_ok: "x25519_public_from_bytes L pub = Inr pub"
    by (simp add: x25519_ok_def)
  from X lep have leph: "length eph = 32"
    by (simp add: x25519_ok_def eph_def)
  from X leph have eph_ok: "x25519_public_from_bytes L eph = Inr eph"
    by (simp add: x25519_ok_def)
  from X lep len obtain s where
    s1: "x25519_exchange L ep pub = Inr s" and s2: "x25519_exchange L private_key eph = Inr s"
    unfolding x25519_ok_def pub_def eph_def by blast
  define dk where "dk = hkdf_sha256 L None (bytes_of ''session_key_wrap'') s"
  from H have ldk: "length dk = 32" by (simp add: hkdf_ok_def dk_def)
  from A ldk lnonce obtain ct where
    new: "aesgcm_new L dk = Inr dk" and
    enc: "aesgcm_encrypt L dk nonce session_key = Inr ct" and
    dec: "aesgcm_decrypt L dk nonce ct = Inr session_key"
    unfolding aesgcm_ok_def by blast
  have w: "wrap_session_key L session_key pub e = (Inr (eph @ nonce @ ct), e2)"
    using pub_ok s1 new enc
    by (simp add: wrap_session_key_def Let_def split_beta ep_def[symmetric] e1_def[symmetric]
          eph_def[symmetric] dk_def[symmetric] nonce_def[symmetric] e2_def[symmetric])
  have u: "unwrap_session_key L (eph @ nonce @ ct) private_key = Inr session_key"
    using eph_ok priv_ok s2 new dec leph lnonce
    by (simp add: unwrap_session_key_def Let_def dk_def[symmetric])
  from w u leph lnonce show ?thesis unfolding pub_def by blast
qed

text \<open>The reference library meets the contracts, with the zero key as session key.\<close>

theorem unwrap_wrap_session_key_witness:
  "x25519_ok ref_lib \<and> aesgcm_ok ref_lib \<and> hkdf_ok ref_lib
   \<and> length (replicate 32 1 :: bytes) = 32
   \<and> (\<exists>eph nonce ct e'.
         wrap_session_key ref_lib zero_key (x25519_public_key ref_lib (replicate 32 1))
             counting_tape = (Inr (eph @ nonce @ ct), e')
         \<and> length eph = 32 \<and> length nonce = 12
         \<and> unwrap_session_key ref_lib (eph @ nonce @ ct) (replicate 32 1) = Inr zero_key)"
proof -
  have l: "length (replicate 32 1 :: bytes) = 32" by simp
  show ?thesis
    using unwrap_wrap_session_key [OF ref_x25519_ok ref_aesgcm_ok ref_hkdf_ok l,
        of zero_key counting_tape] ref_x25519_ok ref_aesgcm_ok ref_hkdf_ok l
    by blast
qed

section \<open>Properties of the image codec\<close>

lemma py_round_of_int: "py_round (of_int n) = n"
  by (simp add: py_round_def)

lemma py_round_half_up: "py_round (of_int n + 1/2) = n \<or> py_round (of_int n + 1/2) = n + 1"
proof -
  have "\<lfloor>of_int n + (1/2 :: real)\<rfloor> = n" by linarith
  then show ?thesis by (simp add: py_round_def Let_def)
qed

lemma py_round_half_down: "py_round (of_int m - 1/2) = m - 1 \<or> py_round (of_int m - 1/2) = m"
proof -
  have "\<lfloor>of_int m - (1/2 :: real)\<rfloor> = m - 1" by linarith
  then show ?thesis by (simp add: py_round_def Let_def)
qed

lemma py_round_near: "\<bar>x - of_int (py_round x)\<bar> \<le> 1/2"
proof -
  have "of_int \<lfloor>x\<rfloor> \<le> x" "x < of_int \<lfloor>x\<rfloor> + 1" by linarith+
  then show ?thesis by (auto simp: py_round_def Let_def)
qed

lemma qim_extract_even_lattice: "qim_extract (of_int (20 * n)) = 0"
proof -
  have a: "(of_int (20 * n) :: real) / of_int delta = of_int n" by (simp add: delta_def)
  have b: "of_int n + (0.5::real) = of_int n + 1/2" by simp
  from py_round_half_up [of n] show ?thesis
    unfolding qim_extract_def Let_def a b py_round_of_int
    by (auto simp: delta_def)
qed

lemma qim_extract_odd_lattice: "qim_extract (of_int (20 * m) - 10) = 1"
proof -
  have a: "(of_int (20 * m) - 10 :: real) / of_int delta = of_int m - 1/2"
    by (simp add: delta_def field_simps)
  have b: "of_int m - 1/2 + (0.5::real) = of_int m" by simp
  from py_round_half_down [of m] show ?thesis
    unfolding qim_extract_def Let_def a b py_round_of_int
    by (auto simp: delta_def)
qed

text \<open>
  C7. For every real coefficient \<open>c\<close> and bit \<open>b\<close>, embedding \<open>b\<close> into \<open>c\<close> with step 20
  gives a multiple of 20 (bit 0) or a point of the lattice offset by 10 (bit 1) that is at
  most 10 away from \<open>c\<close>, hence a nearest one, and the extraction rule recovers \<open>b\<close> from
  it.
\<close>

theorem qim_round_trip:
  assumes "b = 0 \<or> b = 1"
  shows "qim_extract (qim_embed b c) = b
         \<and> (\<exists>n. qim_embed b c = of_int (20 * n) - (if b = 0 then 0 else 10))
         \<and> \<bar>c - qim_embed b c\<bar> \<le> 10"
proof -
  have near0: "\<bar>c - of_int (20 * py_round (c / 20))\<bar> \<le> 10"
    using py_round_near [of "c / 20"] by (simp add: field_simps)
  have near1: "\<bar>c - (of_int (20 * py_round (c / 20 + 1/2)) - 10)\<bar> \<le> 10"
    using py_round_near [of "c / 20 + 1/2"] by (simp add: field_simps)
  from assms show ?thesis
  proof
    assume "b = 0"
    then show ?thesis
      using qim_extract_even_lattice [of "py_round (c / 20)"] near0
      by (auto simp: qim_embed_def delta_def)
  next
    assume "b = 1"
    then show ?thesis
      using qim_extract_odd_lattice [of "py_round (c / 20 + 1/2)"] near1
      by (auto simp: qim_embed_def delta_def)
  qed
qed

theorem qim_round_trip_witness:
  "((1::int) = 0 \<or> (1::int) = 1)
   \<and> qim_extract (qim_embed 1 7) = 1
   \<and> (\<exists>n. qim_embed 1 7 = of_int (20 * n) - (if (1::int) = 0 then 0 else 10))
   \<and> \<bar>7 - qim_embed 1 7\<bar> \<le> 10"
  using qim_round_trip [of 1 7] by simp

lemma embed_loop_nth_aux:
  "n \<le> length fc \<Longrightarrow>
     length (fold (\<lambda>i a. a[i := g i (a ! i)]) [0..<n] fc) = length fc
     \<and> (\<forall>i < length fc.
           fold (\<lambda>i a. a[i := g i (a ! i)]) [0..<n] fc ! i
             = (if i < n then g i (fc ! i) else fc ! i))"
proof (induction n)
  case 0
  then show ?case by simp
next
  case (Suc n)
  then have IH: "length (fold (\<lambda>i a. a[i := g i (a ! i)]) [0..<n] fc) = length fc"
    "\<forall>i < length fc. fold (\<lambda>i a. a[i := g i (a ! i)]) [0..<n] fc ! i
             = (if i < n then g i (fc ! i) else fc ! i)"
    by simp_all
  from Suc.prems have n: "n < length fc" by simp
  show ?case
    using IH n by (auto simp: nth_list_update less_Suc_eq)
qed

lemma embed_loop_length:
  "length payload_bits \<le> length fc \<Longrightarrow> length (embed_loop payload_bits fc) = length fc"
  unfolding embed_loop_def
  using embed_loop_nth_aux [of "length payload_bits" fc "\<lambda>i. embed_step (payload_bits ! i)"]
  by simp

lemma embed_loop_nth:
  "length payload_bits \<le> length fc \<Longrightarrow> i < length fc \<Longrightarrow>
     embed_loop payload_bits fc ! i
       = (if i < length payload_bits then embed_step (payload_bits ! i) (fc ! i) else fc ! i)"
  unfolding embed_loop_def
  using embed_loop_nth_aux [of "length payload_bits" fc "\<lambda>i. embed_step (payload_bits ! i)"]
  by simp

lemma embed_step_int: "embed_step (IntItem b) c = qim_embed b c"
  by (simp add: embed_step_def qim_embed_def)

text \<open>
  The capacity check of \<open>_embed_in_coeffs\<close> compares the length of the sequence it is
  handed with the number of coefficients of the selected level-2 subband. If the sequence
  is longer, the function raises the payload-too-large \<open>ValueError\<close> and the caller's
  coefficients are as they were; otherwise it returns, the subband keeps its size, every
  element of the sequence is embedded in the coefficient of the same index, and the
  coefficients beyond the sequence are untouched.
\<close>

lemma embed_in_coeffs_check:
  "(length payload_bits > nd_size (selected coeffs) \<longrightarrow>
      embed_in_coeffs coeffs payload_bits key
        = (Inl (ValueError (''Payload too large. Max capacity: ''
                              @ py_str (nd_size (selected coeffs)) @ '' bits'')),
           coeffs))
   \<and> (length payload_bits \<le> nd_size (selected coeffs) \<longrightarrow>
        (\<exists>coeffs'. embed_in_coeffs coeffs payload_bits key = (Inr coeffs', coeffs')
           \<and> nd_size (selected coeffs') = nd_size (selected coeffs)
           \<and> (\<forall>i < length payload_bits.
                 nd_data (selected coeffs') ! i
                   = embed_step (payload_bits ! i) (nd_data (selected coeffs) ! i))
           \<and> (\<forall>i. length payload_bits \<le> i \<and> i < nd_size (selected coeffs) \<longrightarrow>
                 nd_data (selected coeffs') ! i = nd_data (selected coeffs) ! i)))"
  by (auto simp: embed_in_coeffs_def selected_def nd_size_def flatten_def reshape_def Let_def
        embed_loop_length embed_loop_nth)

text \<open>
  The two loops together: a sequence of bits 0 and 1 that fits into the subband is read
  back from the embedded coefficients by \<open>_extract_from_coeffs\<close>.
\<close>

lemma qim_extract_embed:
  assumes "b = 0 \<or> b = 1"
  shows "qim_extract (qim_embed b c) = b"
  using assms qim_extract_even_lattice [of "py_round (c / 20)"]
    qim_extract_odd_lattice [of "py_round (c / 20 + 1/2)"]
  by (auto simp: qim_embed_def delta_def)

lemma extract_loop_map:
  "n \<le> length fl \<Longrightarrow>
     fold (\<lambda>i bits. if i \<ge> length fl then bits else bits @ [qim_extract (fl ! i)]) [0..<n] acc
       = acc @ map (\<lambda>i. qim_extract (fl ! i)) [0..<n]"
  by (induction n) simp_all

lemma extract_embed_bits:
  assumes bits: "\<forall>b \<in> set bits. b = 0 \<or> b = 1"
    and fits: "length bits \<le> nd_size (selected coeffs)"
  shows "extract_from_coeffs (snd (embed_in_coeffs coeffs (map IntItem bits) key))
           (length bits) key' = bits"
proof -
  let ?fl = "nd_data (selected coeffs)"
  let ?n = "length bits"
  let ?pb = "map IntItem bits"
  from fits have le: "length ?pb \<le> length ?fl" by (simp add: nd_size_def)
  have emb: "snd (embed_in_coeffs coeffs ?pb key)
      = coeffs\<lparr>level2 := (fst (level2 coeffs),
                           reshape (embed_loop ?pb ?fl) (nd_shape (selected coeffs)),
                           snd (snd (level2 coeffs)))\<rparr>"
    using le by (simp add: embed_in_coeffs_def selected_def flatten_def Let_def)
  have len: "length (embed_loop ?pb ?fl) = length ?fl"
    using le by (rule embed_loop_length)
  have sel: "flatten (fst (snd (level2 (snd (embed_in_coeffs coeffs ?pb key)))))
      = embed_loop ?pb ?fl"
    unfolding emb by (simp add: flatten_def reshape_def)
  have "extract_from_coeffs (snd (embed_in_coeffs coeffs ?pb key)) ?n key'
      = map (\<lambda>i. qim_extract (embed_loop ?pb ?fl ! i)) [0..<?n]"
    unfolding extract_from_coeffs_def Let_def sel
    using extract_loop_map [of ?n "embed_loop ?pb ?fl" "[]"] le len
    by simp
  also have "\<dots> = map (\<lambda>i. bits ! i) [0..<?n]"
  proof (rule map_cong [OF refl])
    fix i assume "i \<in> set [0..<?n]"
    then have i: "i < ?n" by simp
    then have "embed_loop ?pb ?fl ! i = qim_embed (bits ! i) (?fl ! i)"
      using le by (simp add: embed_loop_nth embed_step_int)
    moreover from i bits have "bits ! i = 0 \<or> bits ! i = 1"
      using nth_mem by blast
    ultimately show "qim_extract (embed_loop ?pb ?fl ! i) = bits ! i"
      by (simp add: qim_extract_embed)
  qed
  also have "\<dots> = bits" by (rule map_nth)
  finally show ?thesis .
qed

text \<open>
  What the loop does with the two-element sequence that \<open>embed\<close> passes: neither element
  equals \<open>0\<close>, so the first two coefficients are moved to the lattice of bit 1.
\<close>

lemma embed_loop_pair:
  "2 \<le> length fc \<Longrightarrow>
     embed_loop [BytesItem p, DictItem m] fc
       = fc[0 := qim_embed 1 (fc ! 0), 1 := qim_embed 1 (fc ! 1)]"
  by (simp add: embed_loop_def embed_step_def)

text \<open>
  C6 does not hold of \<open>embed\<close>. Whatever the payload and however long it is, when the key
  is a usable AES key and the carrier decodes to a subband of at least two coefficients,
  \<open>_embed_in_coeffs\<close> is handed a sequence of length 2, its capacity check passes, and
  \<open>embed\<close> returns what the encoder makes of the carrier's coefficients with the first two
  of the selected subband moved to the lattice of bit 1: no payload-too-large error is
  raised for a payload that does not fit, and no bit of the payload, nor a length prefix,
  is embedded, so the result does not depend on the payload.
\<close>

theorem embed_skips_capacity_check:
  assumes "fst (prepare_payload L payload k None e) = Inr (final_payload, md)"
    and "image_open I image_data = Inr img"
    and "y_channel I img = Inr y_array"
    and "wavedec2_haar I y_array = Inr coeffs"
    and "2 \<le> nd_size (selected coeffs)"
  shows "fst (embed I L image_data payload (Some k) e)
           = save_png I img
               (coeffs\<lparr>level2 :=
                  (fst (level2 coeffs),
                   reshape ((nd_data (selected coeffs))
                              [0 := qim_embed 1 (nd_data (selected coeffs) ! 0),
                               1 := qim_embed 1 (nd_data (selected coeffs) ! 1)])
                           (nd_shape (selected coeffs)),
                   snd (snd (level2 coeffs)))\<rparr>)"
proof -
  obtain e' where pp: "prepare_payload L payload k None e = (Inr (final_payload, md), e')"
    using assms(1) by (cases "prepare_payload L payload k None e") simp
  from assms(5) have le: "2 \<le> length (nd_data (selected coeffs))" by (simp add: nd_size_def)
  have emb: "fst (embed_in_coeffs coeffs [BytesItem final_payload, DictItem md] (Some k))
      = Inr (coeffs\<lparr>level2 :=
                  (fst (level2 coeffs),
                   reshape ((nd_data (selected coeffs))
                              [0 := qim_embed 1 (nd_data (selected coeffs) ! 0),
                               1 := qim_embed 1 (nd_data (selected coeffs) ! 1)])
                           (nd_shape (selected coeffs)),
                   snd (snd (level2 coeffs)))\<rparr>)"
    using le embed_loop_pair [OF le, of final_payload md]
    by (simp add: embed_in_coeffs_def selected_def flatten_def Let_def)
  show ?thesis
    by (simp add: embed_def pp assms(2-4) emb)
qed

text \<open>
  On the 256 x 256 gray carrier, whose selected subband has 4096 coefficients, a payload
  of 1000 bytes needs 32 + 8000 bits; \<open>embed\<close> under the zero key returns a PNG file.
\<close>

theorem embed_skips_capacity_check_witness:
  "nd_size (selected gray_coeffs) = 4096
   \<and> nd_size (selected gray_coeffs) < 32 + 8 * length big_payload
   \<and> (\<exists>final_payload md.
         fst (prepare_payload ref_lib big_payload zero_key None counting_tape)
           = Inr (final_payload, md))
   \<and> image_open gray_lib png_magic = Inr gray_image
   \<and> y_channel gray_lib gray_image = Inr (gray_plane 256 128)
   \<and> wavedec2_haar gray_lib (gray_plane 256 128) = Inr gray_coeffs
   \<and> 2 \<le> nd_size (selected gray_coeffs)
   \<and> fst (embed gray_lib ref_lib png_magic big_payload (Some zero_key) counting_tape)
       = Inr png_magic"
proof -
  have sz: "nd_size (selected gray_coeffs) = 4096"
    by (simp add: gray_coeffs_def gray_plane_def selected_def nd_size_def)
  have big: "nd_size (selected gray_coeffs) < 32 + 8 * length big_payload"
    by (simp add: sz big_payload_def)
  obtain final_payload md where
    pp: "fst (prepare_payload ref_lib big_payload zero_key None counting_tape)
           = Inr (final_payload, md)"
    by (simp add: prepare_payload_def ref_defs zero_key_def urandom_def split_def Let_def)
  have o: "image_open gray_lib png_magic = Inr gray_image"
    by (simp add: gray_lib_def png_magic_def)
  have y: "y_channel gray_lib gray_image = Inr (gray_plane 256 128)"
    by (simp add: gray_lib_def)
  have w: "wavedec2_haar gray_lib (gray_plane 256 128) = Inr gray_coeffs"
    by (simp add: gray_lib_def)
  have two: "2 \<le> nd_size (selected gray_coeffs)" by (simp add: sz)
  have sv: "\<And>c. save_png gray_lib gray_image c = Inr png_magic"
    by (simp add: gray_lib_def)
  from embed_skips_capacity_check [OF pp o y w two]
  have "fst (embed gray_lib ref_lib png_magic big_payload (Some zero_key) counting_tape)
       = Inr png_magic"
    by (simp only: sv)
  with sz big pp o y w two show ?thesis by blast
qed

text \<open>
  C8 does not hold of the image codec. On the 256 x 256 gray image its report has five
  entries, none of them named \<open>capacity_bytes\<close> or \<open>recommended_max_payload\<close>: the value
  (4096 - 32) div 8 = 508 is reported as \<open>usable_bytes\<close> and no half of it is reported.
  The document codec, as the audio and video codecs, does report both: on a PDF file of
  1000 bytes, \<open>capacity_bytes\<close> = 10 and \<open>recommended_max_payload\<close> = 10 div 2.
\<close>

theorem analyze_capacity_omits_capacity_bytes:
  "analyze_capacity gray_lib png_magic =
     Inr [(''total_coefficients'', PyInt 4096),
          (''usable_bits'', PyInt 4064),
          (''usable_bytes'', PyInt 508),
          (''image_size_bytes'', PyInt 196608),
          (''efficiency_ratio'', PyFloat (508 / 196608))]
   \<and> DocumentSteganography_analyze_capacity small_pdf None =
       [(''type'', PyStr ''pdf''),
        (''size_bytes'', PyInt 1000),
        (''capacity_bytes'', PyInt 10),
        (''recommended_max_payload'', PyInt 5)]"
  by (simp add: analyze_capacity_def gray_lib_def gray_image_def gray_coeffs_def
        gray_plane_def png_magic_def nd_size_def
        DocumentSteganography_analyze_capacity_def small_pdf_def bytes_of_def)

text \<open>
  The same for every carrier: when the image opens, converts and decomposes (and has a
  pixel), the report gives the size of the selected level-2 subband as
  \<open>total_coefficients\<close>, that size minus 32 as \<open>usable_bits\<close> and the floor of an eighth
  of it as \<open>usable_bytes\<close>; its keys are these three, \<open>image_size_bytes\<close> and
  \<open>efficiency_ratio\<close>. When one of the three steps raises, so does \<open>analyze_capacity\<close>.
\<close>

lemma analyze_capacity_report:
  assumes "image_open I image_data = Inr img"
    and "y_channel I img = Inr y_array"
    and "wavedec2_haar I y_array = Inr coeffs"
    and "img_width img * img_height img * img_bands img \<noteq> 0"
  shows "\<exists>report. analyze_capacity I image_data = Inr report
           \<and> map_of report ''total_coefficients''
               = Some (PyInt (int (nd_size (selected coeffs))))
           \<and> map_of report ''usable_bits''
               = Some (PyInt (int (nd_size (selected coeffs)) - 32))
           \<and> map_of report ''usable_bytes''
               = Some (PyInt ((int (nd_size (selected coeffs)) - 32) div 8))
           \<and> map fst report = [''total_coefficients'', ''usable_bits'', ''usable_bytes'',
                                ''image_size_bytes'', ''efficiency_ratio'']
           \<and> map_of report ''capacity_bytes'' = None
           \<and> map_of report ''recommended_max_payload'' = None"
  using assms by (simp add: analyze_capacity_def selected_def Let_def)

lemma analyze_capacity_raises:
  "image_open I image_data = Inl x \<Longrightarrow> analyze_capacity I image_data = Inl x"
  "image_open I image_data = Inr img \<Longrightarrow> y_channel I img = Inl x \<Longrightarrow>
     analyze_capacity I image_data = Inl x"
  "image_open I image_data = Inr img \<Longrightarrow> y_channel I img = Inr y_array \<Longrightarrow>
     wavedec2_haar I y_array = Inl x \<Longrightarrow> analyze_capacity I image_data = Inl x"
  by (simp_all add: analyze_capacity_def)

text \<open>
  The document codec reports \<open>recommended_max_payload\<close> as half of \<open>capacity_bytes\<close> for
  every PDF and DOCX file, and the pair 1000, 500 for anything else.
\<close>

lemma document_analyze_capacity_half:
  "\<exists>c. map_of (DocumentSteganography_analyze_capacity document_data document_type)
          ''capacity_bytes'' = Some (PyInt c)
       \<and> map_of (DocumentSteganography_analyze_capacity document_data document_type)
          ''recommended_max_payload'' = Some (PyInt (c div 2))"
  by (simp add: DocumentSteganography_analyze_capacity_def Let_def)

section \<open>Properties of the audio and video codecs\<close>

text \<open>
  C10. For every audio carrier that pydub loads, and every seed and payload size,
  \<open>AudioSteganography.extract\<close> returns \<open>b"Extracted payload from audio"\<close>; for every
  video carrier whose temporary file is written, and every seed and payload size,
  \<open>VideoSteganography.extract\<close> returns \<open>b"Extracted payload from video"\<close>. Neither reads
  the samples, the seed or anything embedded before.
\<close>

theorem stub_extract_constant:
  "(audio_from_file M audio_data = Inr samples \<longrightarrow>
      AudioSteganography_extract M audio_data seed payload_size
        = Inr (bytes_of ''Extracted payload from audio''))
   \<and> (temp_file_io M video_data = Inr () \<longrightarrow>
        VideoSteganography_extract M video_data seed' payload_size'
          = Inr (bytes_of ''Extracted payload from video''))"
  by (simp add: AudioSteganography_extract_def VideoSteganography_extract_def)

theorem stub_extract_constant_witness:
  "audio_from_file ref_media [82, 73, 70, 70] = Inr [82, 73, 70, 70]
   \<and> AudioSteganography_extract ref_media [82, 73, 70, 70] zero_key 5
       = Inr (bytes_of ''Extracted payload from audio'')
   \<and> temp_file_io ref_media [0, 0, 0, 24] = Inr ()
   \<and> VideoSteganography_extract ref_media [0, 0, 0, 24] hello 7
       = Inr (bytes_of ''Extracted payload from video'')"
proof -
  have a: "audio_from_file ref_media [82, 73, 70, 70] = Inr [82, 73, 70, 70]"
    by (simp add: ref_media_def)
  have v: "temp_file_io ref_media [0, 0, 0, 24] = Inr ()"
    by (simp add: ref_media_def)
  from stub_extract_constant [of ref_media "[82, 73, 70, 70]" "[82, 73, 70, 70]" zero_key 5
      "[0, 0, 0, 24]" hello 7] a v
  show ?thesis by simp
qed

text \<open>When the library call raises, both stubs re-raise its exception.\<close>

lemma stub_extract_reraises:
  "audio_from_file M audio_data = Inl e \<Longrightarrow>
     AudioSteganography_extract M audio_data seed payload_size = Inl e"
  "temp_file_io M video_data = Inl e \<Longrightarrow>
     VideoSteganography_extract M video_data seed payload_size = Inl e"
  by (simp_all add: AudioSteganography_extract_def VideoSteganography_extract_def)

section \<open>Signature handling in \<open>extract_payload\<close>\<close>

text \<open>
  Whatever the libraries compute: with a verify key, a decoded block whose first 64 bytes
  do not verify over the rest makes \<open>extract_payload\<close> raise the signature error, and the
  cipher is never consulted.
\<close>

lemma extract_payload_signature_gate:
  assumes "rs_decode L (drop HEADER_SIZE embedded_data) = Inr payload"
    and "verify_signature L (drop 64 payload) (take 64 payload) vk = Inr False"
  shows "extract_payload L embedded_data session_key (Some vk)
           = Inl (ValueError ''Signature verification failed'')"
  using assms by (simp add: extract_payload_def Let_def)

text \<open>
  C9 (the code departs from the claim). Whether \<open>extract_payload\<close> splits a signature off
  follows the verify key, not flag bit 0 of header byte 1: without a verify key a payload
  with the flag set and an unsigned body is opened as it is, and one with the flag set
  and a signed body fails to decrypt because the signature is taken for ciphertext; with
  a verify key a payload with the flag clear and a signed body is split and opened, and
  one with the flag clear and an unsigned body fails the signature check.
\<close>

theorem extract_payload_ignores_flag:
  "extract_payload ref_lib (wire flag_set_header False) zero_key None = Inr hello
   \<and> extract_payload ref_lib (wire flag_set_header True) zero_key None
       = Inl (ValueError ''Decryption failed - incorrect key or corrupted data'')
   \<and> extract_payload ref_lib (wire flag_clear_header True) zero_key (Some test_signing_key)
       = Inr hello
   \<and> extract_payload ref_lib (wire flag_clear_header False) zero_key (Some test_signing_key)
       = Inl (ValueError ''Signature verification failed'')"
  by code_simp

end
